theory Spec2Isabelle
  imports Complex_Main
begin

section \<open>Scalar autodifferentiation (minitorch/scalar.py)\<close>

text \<open>
  The module \<^verbatim>\<open>minitorch/scalar.py\<close> defines the numerical derivative estimator
  \<^verbatim>\<open>central_difference\<close>, the class \<^verbatim>\<open>Scalar\<close>, the scalar functions
  (\<^verbatim>\<open>Add\<close>, \<^verbatim>\<open>Log\<close>, \<^verbatim>\<open>Mul\<close>, \<^verbatim>\<open>Inv\<close>, \<^verbatim>\<open>Neg\<close>, \<^verbatim>\<open>Sigmoid\<close>, \<^verbatim>\<open>ReLU\<close>,
  \<^verbatim>\<open>Exp\<close>, \<^verbatim>\<open>LT\<close>, \<^verbatim>\<open>EQ\<close>) and \<^verbatim>\<open>derivative_check\<close>. It imports
  \<^verbatim>\<open>FunctionBase\<close>, \<^verbatim>\<open>Variable\<close>, \<^verbatim>\<open>History\<close> from \<^verbatim>\<open>minitorch/autodiff.py\<close> and the
  numeric kernels from \<^verbatim>\<open>minitorch/operators.py\<close>; those two modules are modelled from
  their description in the specification, each such definition being marked.

  A Python float of the Scalars is modelled as a real number. The arithmetic of the model
  is exact, so it is that of the floats where the result of an operation is itself a
  float; the infinities and NaN are outside it. A theorem below that states the value of
  a sum computed by the source is stated where the exact sum is a float, and a theorem
  that divides is stated for a divisor that is not zero. \<^verbatim>\<open>central_difference\<close> is
  modelled over any type of numbers with its own operations, rounded or not.
  \<^verbatim>\<open>derivative_check\<close> compares floats that come out of rounded operations within a
  tolerance, which exact arithmetic does not decide; it is not modelled.
\<close>

type_synonym float = real

datatype error = ZeroDivisionError | TypeError | ValueError | AssertionError | RecursionError

subsection \<open>Central difference\<close>

text \<open>
  \<^verbatim>\<open>central_difference(f, *vals, arg=0, epsilon=1e-6)\<close> adds, subtracts, multiplies and
  divides the numbers it is given with their own operations: the type \<open>'a\<close> of the
  numbers is any type that has them, and no law of arithmetic is assumed of it. The
  floats of Python, with the rounded operations of IEEE 754 and the comparison \<^verbatim>\<open>==\<close>
  as equality, are such a type; the real numbers, with exact operations, are another, and
  the two agree where no operation rounds.

  Python's division raises \<^verbatim>\<open>ZeroDivisionError\<close> on a divisor equal to zero.
\<close>

definition truediv :: "'a::{zero,inverse} \<Rightarrow> 'a \<Rightarrow> error + 'a" where
  "truediv a b = (if b = 0 then Inl ZeroDivisionError else Inr (a / b))"

text \<open>
  \<open>f\<close> takes the list of its arguments. \<^verbatim>\<open>enumerate\<close> counts from 0 and \<^verbatim>\<open>arg\<close> is
  any integer; a position is perturbed when it equals \<^verbatim>\<open>arg\<close>. The literal \<^verbatim>\<open>2\<close> of
  \<^verbatim>\<open>2 * epsilon\<close> becomes the float 2.0, written \<open>1 + 1\<close> here (a type with a rounded
  addition has no numerals; 1.0 + 1.0 is 2.0 exactly). The defaults \<^verbatim>\<open>arg=0\<close> and
  \<^verbatim>\<open>epsilon=1e-6\<close> of the signature are arguments like any other.
\<close>

definition central_difference ::
  "('a list \<Rightarrow> 'a) \<Rightarrow> 'a::{zero,one,plus,minus,times,inverse} list \<Rightarrow> int \<Rightarrow> 'a \<Rightarrow> error + 'a" where
  "central_difference f vals arg epsilon =
     (let minus_epsilon_vals =
            map (\<lambda>(i, val). if int i = arg then val - epsilon else val) (enumerate 0 vals);
          plus_epsilon_vals =
            map (\<lambda>(i, val). if int i = arg then val + epsilon else val) (enumerate 0 vals);
          derivative = truediv (f plus_epsilon_vals - f minus_epsilon_vals) ((1 + 1) * epsilon)
      in derivative)"

subsection \<open>Numeric kernels (minitorch/operators.py)\<close>

text \<open>Modelled from the spec: the forward kernels of operators.py that scalar.py calls
  (\<^verbatim>\<open>mul\<close>, \<^verbatim>\<open>inv\<close>, \<^verbatim>\<open>neg\<close>, \<^verbatim>\<open>log\<close>, \<^verbatim>\<open>exp\<close>, \<^verbatim>\<open>sigmoid\<close>, \<^verbatim>\<open>relu\<close>), with
  the formulas of section 4.1 of the specification: \<^verbatim>\<open>mul(a,b)=a*b\<close>, \<^verbatim>\<open>inv(a)=1/a\<close>,
  \<^verbatim>\<open>log(a)=ln(a)\<close>, \<^verbatim>\<open>sigmoid(a)=1/(1+e^-a)\<close>, \<^verbatim>\<open>relu(a)=max(0,a)\<close>, negation and
  the exponential. The specification lets \<^verbatim>\<open>inv\<close> and \<^verbatim>\<open>log\<close> follow IEEE 754
  outside their domain and raise no error; the real numbers have no infinity, and the
  theorems below that use \<^verbatim>\<open>inv\<close> are stated for an argument that is not zero.\<close>

definition operators_mul :: "float \<Rightarrow> float \<Rightarrow> float" where
  "operators_mul a b = a * b"

definition operators_inv :: "float \<Rightarrow> float" where
  "operators_inv a = 1 / a"

definition operators_neg :: "float \<Rightarrow> float" where
  "operators_neg a = - a"

definition operators_log :: "float \<Rightarrow> float" where
  "operators_log a = ln a"

definition operators_exp :: "float \<Rightarrow> float" where
  "operators_exp a = exp a"

definition operators_sigmoid :: "float \<Rightarrow> float" where
  "operators_sigmoid a = 1 / (1 + exp (- a))"

definition operators_relu :: "float \<Rightarrow> float" where
  "operators_relu a = max 0 a"

text \<open>Modelled from the spec: the comparison kernels \<^verbatim>\<open>operators.lt\<close> and
  \<^verbatim>\<open>operators.eq\<close>, which the docstrings of \<^verbatim>\<open>LT\<close> and \<^verbatim>\<open>EQ\<close> in scalar.py
  describe as "1.0 if x is less than y else 0.0" and "1.0 if x is equal to y else 0.0".\<close>

definition operators_lt :: "float \<Rightarrow> float \<Rightarrow> float" where
  "operators_lt a b = (if a < b then 1 else 0)"

definition operators_eq :: "float \<Rightarrow> float \<Rightarrow> float" where
  "operators_eq a b = (if a = b then 1 else 0)"

text \<open>Modelled from the spec: the backward kernels of section 4.1,
  \<^verbatim>\<open>mul_back(a,b,d)=(b*d, a*d)\<close>, \<^verbatim>\<open>inv_back(a,d) = -d/a^2\<close>, \<^verbatim>\<open>log_back(a,d)=d/a\<close>,
  \<^verbatim>\<open>relu_back(a,d) = d if a>0 else 0\<close>, \<^verbatim>\<open>sigmoid_back(a,d) = d * s*(1-s)\<close> with
  \<^verbatim>\<open>s=sigmoid(a)\<close>; \<^verbatim>\<open>neg_back\<close> and \<^verbatim>\<open>exp_back\<close> are the derivatives of negation and of
  the exponential times the incoming gradient.\<close>

definition operators_mul_back :: "float \<Rightarrow> float \<Rightarrow> float \<Rightarrow> float \<times> float" where
  "operators_mul_back a b d = (b * d, a * d)"

definition operators_inv_back :: "float \<Rightarrow> float \<Rightarrow> float" where
  "operators_inv_back a d = - d / (a * a)"

definition operators_neg_back :: "float \<Rightarrow> float" where
  "operators_neg_back d = - d"

definition operators_log_back :: "float \<Rightarrow> float \<Rightarrow> float" where
  "operators_log_back a d = d / a"

definition operators_exp_back :: "float \<Rightarrow> float \<Rightarrow> float" where
  "operators_exp_back a d = d * exp a"

definition operators_sigmoid_back :: "float \<Rightarrow> float \<Rightarrow> float" where
  "operators_sigmoid_back a d = d * (operators_sigmoid a * (1 - operators_sigmoid a))"

definition operators_relu_back :: "float \<Rightarrow> float \<Rightarrow> float" where
  "operators_relu_back a d = (if a > 0 then d else 0)"

subsection \<open>Context (minitorch/autodiff.py)\<close>

text \<open>Modelled from the spec: the class \<^verbatim>\<open>Context\<close> of autodiff.py, section 3: a flag
  \<^verbatim>\<open>no_grad\<close> and the ordered tuple \<^verbatim>\<open>saved_values\<close>, empty until the forward call
  saves into it.\<close>

record Context =
  no_grad :: bool
  saved_values :: "float list"

text \<open>Modelled from the spec: the constructor \<^verbatim>\<open>Context(no_grad)\<close> and the save
  operation \<^verbatim>\<open>ctx.save_for_backward(*values)\<close>, which sets \<^verbatim>\<open>saved_values\<close>.\<close>

definition Context_init :: "bool \<Rightarrow> Context" where
  "Context_init ng = \<lparr>no_grad = ng, saved_values = []\<rparr>"

definition save_for_backward :: "Context \<Rightarrow> float list \<Rightarrow> Context" where
  "save_for_backward c vs = c\<lparr>saved_values := vs\<rparr>"

subsection \<open>The scalar functions\<close>

text \<open>
  Each class has a static \<^verbatim>\<open>forward(ctx, *inputs)\<close> and a static
  \<^verbatim>\<open>backward(ctx, d_output)\<close>. A forward returns the float and the context as it has
  left it. \<^verbatim>\<open>super(Mul, Mul).data_type\<close> is \<^verbatim>\<open>ScalarFunction.data_type = float\<close>, the
  identity on a float. A backward that unpacks \<^verbatim>\<open>ctx.saved_values\<close> fails when the
  tuple saved has another length.
\<close>


definition data_type :: "float \<Rightarrow> float" where
  "data_type x = x"

definition Add_forward :: "Context \<Rightarrow> float \<Rightarrow> float \<Rightarrow> float \<times> Context" where
  "Add_forward c a b = (a + b, c)"

definition Add_backward :: "Context \<Rightarrow> float \<Rightarrow> float \<times> float" where
  "Add_backward c d_output = (d_output, d_output)"

definition Log_forward :: "Context \<Rightarrow> float \<Rightarrow> float \<times> Context" where
  "Log_forward c a = (operators_log a, save_for_backward c [a])"

definition Log_backward :: "Context \<Rightarrow> float \<Rightarrow> error + float" where
  "Log_backward c d_output =
     (case saved_values c of [a] \<Rightarrow> Inr (operators_log_back a d_output) | _ \<Rightarrow> Inl TypeError)"

definition Mul_forward :: "Context \<Rightarrow> float \<Rightarrow> float \<Rightarrow> float \<times> Context" where
  "Mul_forward c a b = (data_type (operators_mul a b), save_for_backward c [a, b])"

definition Mul_backward :: "Context \<Rightarrow> float \<Rightarrow> error + float \<times> float" where
  "Mul_backward c d_output =
     (case saved_values c of [a, b] \<Rightarrow> Inr (operators_mul_back a b d_output) | _ \<Rightarrow> Inl ValueError)"

definition Inv_forward :: "Context \<Rightarrow> float \<Rightarrow> float \<times> Context" where
  "Inv_forward c a = (data_type (operators_inv a), save_for_backward c [a])"

definition Inv_backward :: "Context \<Rightarrow> float \<Rightarrow> error + float" where
  "Inv_backward c d_output =
     (case saved_values c of [a] \<Rightarrow> Inr (operators_inv_back a d_output) | _ \<Rightarrow> Inl TypeError)"

definition Neg_forward :: "Context \<Rightarrow> float \<Rightarrow> float \<times> Context" where
  "Neg_forward c a = (data_type (operators_neg a), c)"

definition Neg_backward :: "Context \<Rightarrow> float \<Rightarrow> float" where
  "Neg_backward c d_output = operators_neg_back d_output"

definition Sigmoid_forward :: "Context \<Rightarrow> float \<Rightarrow> float \<times> Context" where
  "Sigmoid_forward c a = (data_type (operators_sigmoid a), save_for_backward c [a])"

definition Sigmoid_backward :: "Context \<Rightarrow> float \<Rightarrow> error + float" where
  "Sigmoid_backward c d_output =
     (case saved_values c of [a] \<Rightarrow> Inr (operators_sigmoid_back a d_output) | _ \<Rightarrow> Inl TypeError)"

definition ReLU_forward :: "Context \<Rightarrow> float \<Rightarrow> float \<times> Context" where
  "ReLU_forward c a = (data_type (operators_relu a), save_for_backward c [a])"

definition ReLU_backward :: "Context \<Rightarrow> float \<Rightarrow> error + float" where
  "ReLU_backward c d_output =
     (case saved_values c of [a] \<Rightarrow> Inr (operators_relu_back a d_output) | _ \<Rightarrow> Inl TypeError)"

definition Exp_forward :: "Context \<Rightarrow> float \<Rightarrow> float \<times> Context" where
  "Exp_forward c a = (data_type (operators_exp a), save_for_backward c [a])"

definition Exp_backward :: "Context \<Rightarrow> float \<Rightarrow> error + float" where
  "Exp_backward c d_output =
     (case saved_values c of [a] \<Rightarrow> Inr (operators_exp_back a d_output) | _ \<Rightarrow> Inl TypeError)"

definition LT_forward :: "Context \<Rightarrow> float \<Rightarrow> float \<Rightarrow> float \<times> Context" where
  "LT_forward c a b = (data_type (operators_lt a b), c)"

definition LT_backward :: "Context \<Rightarrow> float \<Rightarrow> float \<times> float" where
  "LT_backward c d_output = (0, 0)"

definition EQ_forward :: "Context \<Rightarrow> float \<Rightarrow> float \<Rightarrow> float \<times> Context" where
  "EQ_forward c a b = (data_type (operators_eq a b), c)"

definition EQ_backward :: "Context \<Rightarrow> float \<Rightarrow> float \<times> float" where
  "EQ_backward c d_output = (0, 0)"

subsection \<open>Dispatch over the scalar functions\<close>

text \<open>
  The classes are static and never instantiated: a function is named by its class.
  \<^verbatim>\<open>cls.forward(ctx, *raw_vals)\<close> with a number of values other than the one the class
  takes is a \<^verbatim>\<open>TypeError\<close> of the call. A backward returns one gradient or a tuple
  of gradients; the list holds one gradient for each input slot.
\<close>

datatype ScalarFunction = Add | Log | Mul | Inv | Neg | Sigmoid | ReLU | Exp | LT | EQ

fun forward :: "ScalarFunction \<Rightarrow> Context \<Rightarrow> float list \<Rightarrow> error + float \<times> Context" where
  "forward Add c [a, b] = Inr (Add_forward c a b)"
| "forward Log c [a] = Inr (Log_forward c a)"
| "forward Mul c [a, b] = Inr (Mul_forward c a b)"
| "forward Inv c [a] = Inr (Inv_forward c a)"
| "forward Neg c [a] = Inr (Neg_forward c a)"
| "forward Sigmoid c [a] = Inr (Sigmoid_forward c a)"
| "forward ReLU c [a] = Inr (ReLU_forward c a)"
| "forward Exp c [a] = Inr (Exp_forward c a)"
| "forward LT c [a, b] = Inr (LT_forward c a b)"
| "forward EQ c [a, b] = Inr (EQ_forward c a b)"
| "forward _ c _ = Inl TypeError"

definition one_gradient :: "error + float \<Rightarrow> error + float list" where
  "one_gradient r = (case r of Inl e \<Rightarrow> Inl e | Inr x \<Rightarrow> Inr [x])"

definition two_gradients :: "error + float \<times> float \<Rightarrow> error + float list" where
  "two_gradients r = (case r of Inl e \<Rightarrow> Inl e | Inr (x, y) \<Rightarrow> Inr [x, y])"

fun backward :: "ScalarFunction \<Rightarrow> Context \<Rightarrow> float \<Rightarrow> error + float list" where
  "backward Add c d = two_gradients (Inr (Add_backward c d))"
| "backward Log c d = one_gradient (Log_backward c d)"
| "backward Mul c d = two_gradients (Mul_backward c d)"
| "backward Inv c d = one_gradient (Inv_backward c d)"
| "backward Neg c d = one_gradient (Inr (Neg_backward c d))"
| "backward Sigmoid c d = one_gradient (Sigmoid_backward c d)"
| "backward ReLU c d = one_gradient (ReLU_backward c d)"
| "backward Exp c d = one_gradient (Exp_backward c d)"
| "backward LT c d = two_gradients (Inr (LT_backward c d))"
| "backward EQ c d = two_gradients (Inr (EQ_backward c d))"

subsection \<open>Scalar, History and the store of Scalars\<close>

text \<open>
  A Scalar is a mutable object with an identity, referred to from the histories of the
  Scalars computed from it. The model keeps all Scalars in a store, a list in order of
  creation; a reference to a Scalar is its position there, which is also its
  \<^verbatim>\<open>unique_id\<close>. An operand of a function application is a Scalar or a raw number.
\<close>

datatype arg = Var nat | Num float

text \<open>Modelled from the spec: the class \<^verbatim>\<open>History\<close> of autodiff.py, section 3: the
  operation that produced the value, the context of its forward call and the inputs as
  they were passed. \<^verbatim>\<open>History()\<close>, with no argument, is the placeholder that records no
  operation, no context and no input.\<close>

record History =
  operation :: "ScalarFunction option"
  hcontext :: "Context option"
  inputs :: "arg list"

definition History_init :: "History" where
  "History_init = \<lparr>operation = None, hcontext = None, inputs = []\<rparr>"

text \<open>Modelled from the spec: the attributes of \<^verbatim>\<open>Variable\<close> of autodiff.py, section 3,
  which \<^verbatim>\<open>Scalar\<close> inherits; \<^verbatim>\<open>data\<close> is the attribute that \<^verbatim>\<open>Scalar.__init__\<close>
  adds.\<close>

record Scalar =
  data :: float
  history :: "History option"
  derivative :: "float option"
  requires_grad :: bool
  name :: "string option"
  unique_id :: nat

type_synonym store = "Scalar list"

text \<open>Modelled from the spec: \<^verbatim>\<open>Variable.__init__(history, name)\<close> of autodiff.py, which
  keeps the history and the name it is given, leaves the derivative unset and the
  gradient not requested, and takes the next \<^verbatim>\<open>unique_id\<close>.
  \<^verbatim>\<open>Scalar.__init__(v, back, name)\<close> calls it with \<^verbatim>\<open>back\<close> and sets
  \<^verbatim>\<open>data = float(v)\<close>; the new object is put in the store.\<close>

definition Scalar_init :: "float \<Rightarrow> History option \<Rightarrow> string option \<Rightarrow> store \<Rightarrow> nat \<times> store" where
  "Scalar_init v back nm st =
     (length st,
      st @ [\<lparr>data = v, history = back, derivative = None, requires_grad = False,
             name = nm, unique_id = length st\<rparr>])"

text \<open>The call \<^verbatim>\<open>Scalar(v)\<close>: the defaults of the signature
  \<^verbatim>\<open>__init__(self, v, back=History(), name=None)\<close>.\<close>

definition Scalar_new :: "float \<Rightarrow> store \<Rightarrow> nat \<times> store" where
  "Scalar_new v st = Scalar_init v (Some History_init) None st"

text \<open>Modelled from the spec: \<^verbatim>\<open>requires_grad_(val)\<close> of autodiff.py, the toggle of the
  flag \<^verbatim>\<open>requires_grad\<close> (section 6); the name cannot end in an underscore here.\<close>

definition set_requires_grad :: "nat \<Rightarrow> bool \<Rightarrow> store \<Rightarrow> store" where
  "set_requires_grad x val st = st[x := (st ! x)\<lparr>requires_grad := val\<rparr>]"

text \<open>A reference is valid in a store when the Scalar it names is there.\<close>

fun valid :: "store \<Rightarrow> arg \<Rightarrow> bool" where
  "valid st (Var i) = (i < length st)"
| "valid st (Num x) = True"

subsection \<open>Function application (FunctionBase.apply)\<close>

text \<open>Modelled from the spec: \<^verbatim>\<open>FunctionBase.apply\<close> of autodiff.py, section 4.2.
  (1) \<^verbatim>\<open>needs_grad\<close> is whether any tracked argument requires a gradient; (2) every
  argument is unwrapped to its raw value; (3) a fresh context has
  \<^verbatim>\<open>no_grad = not needs_grad\<close>; (4) the forward is called; (5, 6) the result is wrapped
  by \<^verbatim>\<open>cls.variable(cls.data(c), back)\<close>, that is \<^verbatim>\<open>Scalar(c, back)\<close>, where
  \<^verbatim>\<open>back\<close> is a History of the function, the context and the original arguments when
  \<^verbatim>\<open>needs_grad\<close>, and no history otherwise. The output requires a gradient exactly when
  \<^verbatim>\<open>needs_grad\<close>, so that a gradient flows through a chain of applications.\<close>

fun arg_requires_grad :: "store \<Rightarrow> arg \<Rightarrow> bool" where
  "arg_requires_grad st (Var i) = requires_grad (st ! i)"
| "arg_requires_grad st (Num x) = False"

fun raw :: "store \<Rightarrow> arg \<Rightarrow> float" where
  "raw st (Var i) = data (st ! i)"
| "raw st (Num x) = x"

definition FunctionBase_apply :: "ScalarFunction \<Rightarrow> arg list \<Rightarrow> store \<Rightarrow> error + nat \<times> store" where
  "FunctionBase_apply cls vals st =
     (let need_grad = list_ex (arg_requires_grad st) vals;
          raw_vals = map (raw st) vals
      in case forward cls (Context_init (\<not> need_grad)) raw_vals of
           Inl e \<Rightarrow> Inl e
         | Inr (c, cx) \<Rightarrow>
             (let back = (if need_grad
                          then Some \<lparr>operation = Some cls, hcontext = Some cx, inputs = vals\<rparr>
                          else None);
                  (i, st') = Scalar_init c back None st
              in Inr (i, set_requires_grad i need_grad st')))"

subsection \<open>The methods of Scalar\<close>

text \<open>
  \<^verbatim>\<open>self\<close> is a Scalar of the store; the other operand \<^verbatim>\<open>b\<close> is a Scalar or a raw
  number. A method that applies two functions threads the store through both and stops
  at the first error.
\<close>

definition and_then :: "error + 'a \<Rightarrow> ('a \<Rightarrow> error + 'b) \<Rightarrow> error + 'b" where
  "and_then r k = (case r of Inl e \<Rightarrow> Inl e | Inr x \<Rightarrow> k x)"

definition Scalar_mul :: "nat \<Rightarrow> arg \<Rightarrow> store \<Rightarrow> error + nat \<times> store" where
  "Scalar_mul self b st = FunctionBase_apply Mul [Var self, b] st"



definition Scalar_add :: "nat \<Rightarrow> arg \<Rightarrow> store \<Rightarrow> error + nat \<times> store" where
  "Scalar_add self b st = FunctionBase_apply Add [Var self, b] st"

definition Scalar_bool :: "Scalar \<Rightarrow> bool" where
  "Scalar_bool self = (data self \<noteq> 0)"

definition Scalar_lt :: "nat \<Rightarrow> arg \<Rightarrow> store \<Rightarrow> error + nat \<times> store" where
  "Scalar_lt self b st = FunctionBase_apply LT [Var self, b] st"

definition Scalar_gt :: "nat \<Rightarrow> arg \<Rightarrow> store \<Rightarrow> error + nat \<times> store" where
  "Scalar_gt self b st = FunctionBase_apply LT [b, Var self] st"

definition Scalar_eq :: "nat \<Rightarrow> arg \<Rightarrow> store \<Rightarrow> error + nat \<times> store" where
  "Scalar_eq self b st = FunctionBase_apply EQ [Var self, b] st"


definition Scalar_neg :: "nat \<Rightarrow> store \<Rightarrow> error + nat \<times> store" where
  "Scalar_neg self st = FunctionBase_apply Neg [Var self] st"

definition Scalar_log :: "nat \<Rightarrow> store \<Rightarrow> error + nat \<times> store" where
  "Scalar_log self st = FunctionBase_apply Log [Var self] st"

definition Scalar_exp :: "nat \<Rightarrow> store \<Rightarrow> error + nat \<times> store" where
  "Scalar_exp self st = FunctionBase_apply Exp [Var self] st"

definition Scalar_sigmoid :: "nat \<Rightarrow> store \<Rightarrow> error + nat \<times> store" where
  "Scalar_sigmoid self st = FunctionBase_apply Sigmoid [Var self] st"

definition Scalar_relu :: "nat \<Rightarrow> store \<Rightarrow> error + nat \<times> store" where
  "Scalar_relu self st = FunctionBase_apply ReLU [Var self] st"

definition get_data :: "Scalar \<Rightarrow> float" where
  "get_data self = data self"

subsection \<open>Backward propagation (Variable.backward)\<close>

text \<open>Modelled from the spec: a leaf is a Variable with no History (section 3 and the
  glossary). The placeholder \<^verbatim>\<open>History()\<close> that \<^verbatim>\<open>Scalar.__init__\<close> passes by default
  records no operation, and a Scalar that carries it is a leaf as well.\<close>

definition is_leaf :: "Scalar \<Rightarrow> bool" where
  "is_leaf v = (case history v of None \<Rightarrow> True | Some h \<Rightarrow> operation h = None)"

text \<open>Modelled from the spec: the input slots of a History that hold a Variable;
  raw-number slots have no node (section 3).\<close>

fun variables :: "arg list \<Rightarrow> nat list" where
  "variables [] = []"
| "variables (Var i # as) = i # variables as"
| "variables (Num x # as) = variables as"

definition history_inputs :: "store \<Rightarrow> nat \<Rightarrow> nat list" where
  "history_inputs st v =
     (if v < length st
      then (case history (st ! v) of None \<Rightarrow> [] | Some h \<Rightarrow> variables (inputs h))
      else [])"

text \<open>Modelled from the spec: step 1 of section 4.3, the visitation order by a
  depth-first traversal from the root that records a Variable once its inputs are
  complete (post-order); the list read from its head is the order from the output to
  the inputs. The traversal works through a list of Variables still to visit; the first
  argument bounds the depth of the recursion, and running out of it is \<open>None\<close>.\<close>

fun visit :: "nat \<Rightarrow> store \<Rightarrow> nat list \<Rightarrow> nat list \<Rightarrow> nat list option" where
  "visit n st [] order = Some order"
| "visit 0 st (v # vs) order = None"
| "visit (Suc n) st (v # vs) order =
     (if v \<in> set order then visit (Suc n) st vs order
      else (case visit n st (history_inputs st v) order of
              None \<Rightarrow> None
            | Some order' \<Rightarrow> visit (Suc n) st vs (v # order')))"

text \<open>A chain of inputs in a store is no longer than the store when every Variable
  refers to Variables created before it only, as construction ensures (step 4 of
  section 4.3); the depth allowed is the size of the store.\<close>

definition topological_order :: "store \<Rightarrow> nat \<Rightarrow> nat list option" where
  "topological_order st self = visit (Suc (length st)) st [self] []"

definition created_before :: "store \<Rightarrow> bool" where
  "created_before st = (\<forall>v. \<forall>i \<in> set (history_inputs st v). i < v)"

text \<open>Modelled from the spec: step 3 of section 4.3 for a Variable with a History: the
  gradient returned for each input slot that holds a Variable is added into the running
  total of that Variable, the entry being created if absent; the gradient of a
  raw-number slot is discarded.\<close>

fun add_gradients :: "arg list \<Rightarrow> float list \<Rightarrow> (nat \<rightharpoonup> float) \<Rightarrow> (nat \<rightharpoonup> float)" where
  "add_gradients (Var i # as) (g # gs) m =
     add_gradients as gs (m(i \<mapsto> (case m i of None \<Rightarrow> g | Some t \<Rightarrow> t + g)))"
| "add_gradients (Num x # as) (g # gs) m = add_gradients as gs m"
| "add_gradients as gs m = m"

text \<open>Modelled from the spec: step 3 of section 4.3 for a leaf that requires a
  gradient: the mapped gradient is accumulated into its \<^verbatim>\<open>derivative\<close>, which starts
  from zero when unset.\<close>

definition accumulate_derivative :: "Scalar \<Rightarrow> float \<Rightarrow> Scalar" where
  "accumulate_derivative v g =
     v\<lparr>derivative := Some ((case derivative v of None \<Rightarrow> 0 | Some t \<Rightarrow> t) + g)\<rparr>"

text \<open>Modelled from the spec: step 3 of section 4.3, the visit of the Variables in
  order with the map from \<^verbatim>\<open>unique_id\<close> to the accumulated incoming gradient.\<close>

fun propagate :: "nat list \<Rightarrow> (nat \<rightharpoonup> float) \<Rightarrow> store \<Rightarrow> error + store" where
  "propagate [] m st = Inr st"
| "propagate (v # vs) m st =
     (let g = (case m v of None \<Rightarrow> 0 | Some t \<Rightarrow> t)
      in if is_leaf (st ! v)
         then propagate vs m
                (if requires_grad (st ! v) then st[v := accumulate_derivative (st ! v) g] else st)
         else (case history (st ! v) of
                 None \<Rightarrow> Inl TypeError
               | Some h \<Rightarrow>
                   (case (operation h, hcontext h) of
                      (Some cls, Some cx) \<Rightarrow>
                        (case backward cls cx g of
                           Inl e \<Rightarrow> Inl e
                         | Inr gs \<Rightarrow> propagate vs (add_gradients (inputs h) gs m) st)
                    | _ \<Rightarrow> Inl TypeError)))"

text \<open>Modelled from the spec: \<^verbatim>\<open>backward(root, seed)\<close> of section 4.3: the order of
  step 1, the map of step 2 seeded with the root's gradient, the visit of step 3.\<close>

definition Variable_backward :: "nat \<Rightarrow> float \<Rightarrow> store \<Rightarrow> error + store" where
  "Variable_backward self d_output st =
     (case topological_order st self of
        None \<Rightarrow> Inl RecursionError
      | Some order \<Rightarrow> propagate order [self \<mapsto> d_output] st)"

text \<open>The call \<^verbatim>\<open>x.backward()\<close>: the default seed is 1.0.\<close>

definition Variable_backward_default :: "nat \<Rightarrow> store \<Rightarrow> error + store" where
  "Variable_backward_default self st = Variable_backward self 1 st"

section \<open>Properties\<close>

subsection \<open>Function application creates one Scalar\<close>

lemmas forward_defs = Add_forward_def Mul_forward_def Inv_forward_def Neg_forward_def
  LT_forward_def EQ_forward_def data_type_def operators_mul_def operators_inv_def
  operators_neg_def operators_lt_def operators_eq_def save_for_backward_def Context_init_def

lemma apply_result:
  assumes "forward cls (Context_init (\<not> list_ex (arg_requires_grad st) vals)) (map (raw st) vals)
           = Inr (c, cx)"
  shows "FunctionBase_apply cls vals st =
     Inr (length st,
          st @ [\<lparr>data = c,
                 history = (if list_ex (arg_requires_grad st) vals
                            then Some \<lparr>operation = Some cls, hcontext = Some cx, inputs = vals\<rparr>
                            else None),
                 derivative = None, requires_grad = list_ex (arg_requires_grad st) vals,
                 name = None, unique_id = length st\<rparr>])"
  using assms
  by (simp add: FunctionBase_apply_def Scalar_init_def set_requires_grad_def Let_def)


lemma visit_numeral:
  "visit (n + numeral k) st (v # vs) order = visit (Suc (n + pred_numeral k)) st (v # vs) order"
  by (simp add: numeral_eq_Suc)

lemma perturb_update:
  assumes "0 \<le> k" and "k < int (length vals)"
  shows "map (\<lambda>(i, val). if int i = k then h val else val) (enumerate 0 vals)
         = vals[nat k := h (vals ! nat k)]"
  using assms
  by (intro nth_equalityI) (auto simp: nth_enumerate_eq nth_list_update)

text \<open>An \<^verbatim>\<open>arg\<close> that is no position of \<^verbatim>\<open>vals\<close> perturbs nothing.\<close>

lemma perturb_outside:
  assumes "k < 0 \<or> int (length vals) \<le> k"
  shows "map (\<lambda>(i, val). if int i = k then h val else val) (enumerate 0 vals) = vals"
  using assms
  by (intro nth_equalityI) (auto simp: nth_enumerate_eq)

subsection \<open>The traversal returns\<close>

text \<open>
  In a store where every Variable refers to Variables created before it, the depth
  allowed to the traversal is enough: the order of a backward pass exists. The empty
  store is such a store, and so is one where a Scalar is created whose history refers to
  Scalars that exist.
\<close>

lemma visit_returns:
  assumes "created_before st"
  shows "\<forall>v \<in> set vs. v < n \<Longrightarrow> visit n st vs order \<noteq> None"
proof (induction n arbitrary: vs order)
  case 0
  then have "vs = []" by (cases vs) auto
  then show ?case by simp
next
  case (Suc n)
  from Suc.prems show ?case
  proof (induction vs arbitrary: order)
    case Nil
    then show ?case by simp
  next
    case (Cons v vs)
    show ?case
    proof (cases "v \<in> set order")
      case True
      then show ?thesis using Cons by simp
    next
      case False
      have "\<forall>i \<in> set (history_inputs st v). i < n"
        using assms Cons.prems by (fastforce simp: created_before_def)
      from Suc.IH [OF this] obtain order' where
        "visit n st (history_inputs st v) order = Some order'"
        by blast
      then show ?thesis
        using False Cons by simp
    qed
  qed
qed

lemma topological_order_returns:
  assumes "created_before st" and "v < length st"
  shows "\<exists>order. topological_order st v = Some order"
  using visit_returns [OF assms(1), of "[v]" "Suc (length st)" "[]"] assms(2)
  by (auto simp: topological_order_def)

lemma created_before_empty: "created_before []"
  by (simp add: created_before_def history_inputs_def)

lemma created_before_init:
  assumes st: "created_before st"
      and hist: "\<forall>h. back = Some h \<longrightarrow> (\<forall>i \<in> set (variables (inputs h)). i < length st)"
  shows "created_before (snd (Scalar_init c back nm st))"
  unfolding created_before_def
proof (intro allI ballI)
  fix v i
  let ?st' = "snd (Scalar_init c back nm st)"
  assume i: "i \<in> set (history_inputs ?st' v)"
  consider "v < length st" | "v = length st" | "length st < v" by linarith
  then show "i < v"
  proof cases
    case 1
    then have "history_inputs ?st' v = history_inputs st v"
      by (simp add: history_inputs_def Scalar_init_def nth_append)
    then show ?thesis using i st by (simp add: created_before_def)
  next
    case 2
    then have "history_inputs ?st' v
               = (case back of None \<Rightarrow> [] | Some h \<Rightarrow> variables (inputs h))"
      by (simp add: history_inputs_def Scalar_init_def)
    then show ?thesis using i hist 2 by (auto split: option.splits)
  next
    case 3
    then have "history_inputs ?st' v = []"
      by (simp add: history_inputs_def Scalar_init_def)
    then show ?thesis using i by simp
  qed
qed

subsection \<open>The comparison functions have a zero gradient\<close>

text \<open>
  Claim C3. For every context and every incoming gradient \<open>d_output\<close>,
  \<^verbatim>\<open>LT.backward(ctx, d_output)\<close> and \<^verbatim>\<open>EQ.backward(ctx, d_output)\<close> return the pair
  \<open>(0.0, 0.0)\<close>; in particular on the context that the forward call of any operands
  \<open>a\<close>, \<open>b\<close> has left.
\<close>

theorem comparison_backward_zero:
  "LT_backward c d = (0, 0) \<and> EQ_backward c d = (0, 0)
   \<and> LT_backward (snd (LT_forward c a b)) d = (0, 0)
   \<and> EQ_backward (snd (EQ_forward c a b)) d = (0, 0)"
  by (simp add: LT_backward_def EQ_backward_def)

subsection \<open>Multiplication\<close>

text \<open>
  Claim C4. For all floats \<open>a\<close>, \<open>b\<close> and \<open>d\<close> and every context,
  \<^verbatim>\<open>Mul.forward(ctx, a, b)\<close> returns \<open>a * b\<close> and leaves the pair \<open>(a, b)\<close> as the saved
  values of the context, and \<^verbatim>\<open>Mul.backward\<close> on that context with incoming gradient
  \<open>d\<close> returns \<open>(b * d, a * d)\<close>.
\<close>

theorem Mul_forward_backward:
  "fst (Mul_forward c a b) = a * b
   \<and> saved_values (snd (Mul_forward c a b)) = [a, b]
   \<and> Mul_backward (snd (Mul_forward c a b)) d = Inr (b * d, a * d)"
  by (simp add: Mul_forward_def Mul_backward_def save_for_backward_def data_type_def
      operators_mul_def operators_mul_back_def)

subsection \<open>The end-to-end example\<close>

text \<open>
  Claim C1. In any store, let \<open>a = Scalar(2.0)\<close> and \<open>b = Scalar(3.0)\<close> with
  \<^verbatim>\<open>requires_grad\<close> set to true, and \<open>c = a * b + a\<close>. Then \<open>c.data\<close> is 8.0, and after
  \<^verbatim>\<open>c.backward()\<close> with the default seed 1.0, \<open>a.derivative\<close> is 4.0 and
  \<open>b.derivative\<close> is 2.0: the contributions to \<open>a\<close> through \<^verbatim>\<open>Mul\<close> and through
  \<^verbatim>\<open>Add\<close> are both accumulated.
\<close>

theorem end_to_end_example:
  "(let (a, s1) = Scalar_new 2 st;
        (b, s2) = Scalar_new 3 s1;
        s3 = set_requires_grad a True s2;
        s4 = set_requires_grad b True s3
    in and_then (Scalar_mul a (Var b) s4) (\<lambda>(t, s5).
       and_then (Scalar_add t (Var a) s5) (\<lambda>(c, s6).
       and_then (Variable_backward_default c s6) (\<lambda>s7.
       Inr (data (s6 ! c), derivative (s7 ! a), derivative (s7 ! b))))))
   = Inr (8, Some 4, Some 2)"
  by (simp add: Scalar_new_def Scalar_init_def set_requires_grad_def Let_def
      Scalar_mul_def Scalar_add_def and_then_def FunctionBase_apply_def Context_init_def
      Mul_forward_def Add_forward_def data_type_def operators_mul_def save_for_backward_def
      Variable_backward_default_def Variable_backward_def topological_order_def
      history_inputs_def is_leaf_def History_init_def accumulate_derivative_def two_gradients_def
      Add_backward_def Mul_backward_def operators_mul_back_def nth_append visit_numeral
      list_update_append)

subsection \<open>A Scalar made from a number\<close>

text \<open>
  Claim C2, as stated: a Scalar constructed from a raw number, with no history argument,
  has \<open>history = none\<close>. It does not: \<^verbatim>\<open>Scalar.__init__\<close> passes its default
  \<^verbatim>\<open>back=History()\<close>, and \<open>Scalar(2.0)\<close> carries that placeholder.
\<close>

theorem leaf_history_counterexample:
  "history (snd (Scalar_new 2 []) ! fst (Scalar_new 2 [])) \<noteq> None"
  by (simp add: Scalar_new_def Scalar_init_def)

text \<open>
  Claim C2, amended. In any store, a Scalar \<open>s\<close> constructed from a raw number \<open>v\<close> with
  no history argument carries the placeholder \<^verbatim>\<open>History()\<close>, which records no
  operation, so that \<open>s\<close> is a leaf. Once \<^verbatim>\<open>requires_grad\<close> is set to true, calling
  backward on \<open>s\<close> with the seed \<open>d\<close> sets the derivative of \<open>s\<close> to \<open>d\<close> (to 1.0 with
  the default seed) and changes nothing else in the store.
\<close>

theorem leaf_backward:
  "(let (s, st1) = Scalar_new v st;
        st2 = set_requires_grad s True st1
    in history (st1 ! s) = Some History_init \<and> is_leaf (st1 ! s)
       \<and> Variable_backward s d st2 = Inr (st2[s := (st2 ! s)\<lparr>derivative := Some d\<rparr>])
       \<and> Variable_backward_default s st2 = Inr (st2[s := (st2 ! s)\<lparr>derivative := Some 1\<rparr>]))"
  by (simp add: Scalar_new_def Scalar_init_def set_requires_grad_def Let_def
      Variable_backward_default_def Variable_backward_def topological_order_def
      history_inputs_def is_leaf_def History_init_def accumulate_derivative_def nth_append)

subsection \<open>Division and subtraction are composed\<close>




subsection \<open>Greater-than is less-than with the operands swapped\<close>

text \<open>
  Claim C6. For Scalars \<open>a\<close> and \<open>b\<close> of the store, \<open>a > b\<close> is \<^verbatim>\<open>LT\<close> applied to
  \<open>(b, a)\<close>, the same application as \<open>b < a\<close>; it returns a Scalar whose data is 1.0 if
  \<open>b.data < a.data\<close> and 0.0 otherwise. No function other than \<^verbatim>\<open>LT\<close> is involved.
\<close>

theorem greater_than_swaps_less_than:
  assumes "a < length st" and "b < length st"
  shows "Scalar_gt a (Var b) st = FunctionBase_apply LT [Var b, Var a] st
       \<and> Scalar_gt a (Var b) st = Scalar_lt b (Var a) st
       \<and> (\<exists>r st'. Scalar_gt a (Var b) st = Inr (r, st') \<and> r < length st'
             \<and> data (st' ! r) = (if data (st ! b) < data (st ! a) then 1 else 0))"
  using assms
  by (simp add: Scalar_gt_def Scalar_lt_def apply_result forward_defs)

theorem greater_than_swaps_less_than_witness:
  "(let st = snd (Scalar_new 3 (snd (Scalar_new 6 [])))
    in 0 < length st \<and> 1 < length st
       \<and> Scalar_gt 0 (Var 1) st = Scalar_lt 1 (Var 0) st
       \<and> (\<exists>r st'. Scalar_gt 0 (Var 1) st = Inr (r, st') \<and> r < length st' \<and> data (st' ! r) = 1))"
proof -
  define st where "st = snd (Scalar_new 3 (snd (Scalar_new 6 [])))"
  have operands: "0 < length st" "1 < length st"
    and numbers: "data (st ! 0) = 6" "data (st ! 1) = 3"
    by (simp_all add: st_def Scalar_new_def Scalar_init_def)
  show ?thesis
    using greater_than_swaps_less_than [OF operands] operands
    unfolding Let_def st_def [symmetric] numbers
    by fastforce
qed

subsection \<open>Central difference\<close>

text \<open>
  Claim C7, as stated: for every epsilon, \<^verbatim>\<open>central_difference\<close> returns the quotient of
  the difference by \<open>2 * epsilon\<close>. It does not at \<open>epsilon = 0\<close>: for the identity at 1.0
  the division by \<open>2 * 0.0\<close> raises \<^verbatim>\<open>ZeroDivisionError\<close>, and nothing is returned.
\<close>

theorem central_difference_zero_epsilon_counterexample:
  "central_difference (\<lambda>xs. xs ! 0) [1 :: real] 0 0 = Inl ZeroDivisionError
   \<and> (\<nexists>r. central_difference (\<lambda>xs. xs ! 0) [1 :: real] 0 0 = Inr r)"
  by (simp add: central_difference_def truediv_def enumerate_eq_zip)

text \<open>
  Claim C7, amended. For every function \<open>f\<close>, every list \<open>vals\<close> of numbers, every
  position \<open>arg\<close> of it and every \<open>epsilon\<close>: when \<open>2 * epsilon\<close> is not zero (for a float,
  when \<open>epsilon\<close> is not zero), \<^verbatim>\<open>central_difference(f, *vals, arg, epsilon)\<close> returns
  \<open>(f(vals with vals[arg] + epsilon) - f(vals with vals[arg] - epsilon)) / (2 * epsilon)\<close>,
  computed with the operations of the numbers, where only the position \<open>arg\<close> is changed in
  either list; when \<open>2 * epsilon\<close> is zero it raises \<^verbatim>\<open>ZeroDivisionError\<close>.
\<close>

theorem central_difference_formula:
  assumes "0 \<le> arg" and "arg < int (length vals)"
  shows "central_difference f vals arg epsilon =
           (if (1 + 1) * epsilon = 0 then Inl ZeroDivisionError
            else Inr ((f (vals[nat arg := vals ! nat arg + epsilon])
                       - f (vals[nat arg := vals ! nat arg - epsilon])) / ((1 + 1) * epsilon)))"
proof -
  have plus: "map (\<lambda>(i, val). if int i = arg then val + epsilon else val) (enumerate 0 vals)
              = vals[nat arg := vals ! nat arg + epsilon]"
    using perturb_update [OF assms, of "\<lambda>val. val + epsilon"] .
  have minus: "map (\<lambda>(i, val). if int i = arg then val - epsilon else val) (enumerate 0 vals)
              = vals[nat arg := vals ! nat arg - epsilon]"
    using perturb_update [OF assms, of "\<lambda>val. val - epsilon"] .
  show ?thesis
    unfolding central_difference_def Let_def plus minus truediv_def ..
qed

theorem central_difference_formula_witness:
  "(0::int) \<le> 1 \<and> (1::int) < int (length [3, 4 :: real]) \<and> (1 + 1) * (1 / 2 :: real) \<noteq> 0
   \<and> central_difference (\<lambda>xs. xs ! 0 * xs ! 1) [3, 4 :: real] 1 (1 / 2) = Inr 3"
  using central_difference_formula [of 1 "[3, 4 :: real]" "\<lambda>xs. xs ! 0 * xs ! 1" "1 / 2"]
  by simp

subsection \<open>Equality of Scalars\<close>

text \<open>
  Claim C9. For a Scalar \<open>a\<close> of the store and an operand \<open>b\<close>, \<open>a == b\<close> is \<^verbatim>\<open>EQ\<close>
  applied to \<open>(a, b)\<close>: it returns a newly created Scalar, not a boolean, whose data is
  1.0 if \<open>a.data\<close> equals \<open>b.data\<close> and 0.0 otherwise, whichever objects \<open>a\<close> and \<open>b\<close>
  are.
\<close>

theorem equality_is_EQ:
  assumes "a < length st" and "valid st b"
  shows "Scalar_eq a b st = FunctionBase_apply EQ [Var a, b] st
       \<and> (\<exists>st'. Scalar_eq a b st = Inr (length st, st') \<and> length st' = Suc (length st)
             \<and> data (st' ! length st) = (if data (st ! a) = raw st b then 1 else 0))"
  using assms
  by (simp add: Scalar_eq_def apply_result forward_defs)

theorem equality_is_EQ_witness:
  "(let st = snd (Scalar_new 6 (snd (Scalar_new 6 [])))
    in 0 < length st \<and> valid st (Var 1)
       \<and> (\<exists>st'. Scalar_eq 0 (Var 1) st = Inr (2, st') \<and> length st' = 3 \<and> data (st' ! 2) = 1))"
proof -
  define st where "st = snd (Scalar_new 6 (snd (Scalar_new 6 [])))"
  have operands: "0 < length st" "valid st (Var 1)"
    and numbers: "data (st ! 0) = 6" "raw st (Var 1) = 6" "length st = 2"
    by (simp_all add: st_def Scalar_new_def Scalar_init_def)
  show ?thesis
    using equality_is_EQ [OF operands] operands
    unfolding Let_def st_def [symmetric] numbers
    by fastforce
qed

subsection \<open>Truth value of a Scalar\<close>

text \<open>
  Claim C10. For every Scalar \<open>s\<close>, \<open>bool(s)\<close> is true if and only if \<open>s.data\<close> is
  nonzero; a Scalar with data 0.0 is false, and the truth value does not depend on the
  history, the derivative, the flag, the name or the identity of \<open>s\<close>.
\<close>

theorem bool_of_data:
  "Scalar_bool s = (data s \<noteq> 0)
   \<and> Scalar_bool (s\<lparr>data := 0\<rparr>) = False
   \<and> Scalar_bool (s\<lparr>history := h, derivative := dv, requires_grad := g, name := nm,
                    unique_id := u\<rparr>) = Scalar_bool s"
  by (simp add: Scalar_bool_def)

end
